theory Spec2Isabelle
  imports
    Main
    "HOL-Library.Word"
    "HOL-Library.Signed_Division"
    "HOL-Library.Char_ord"
    "HOL-Library.List_Lexorder"
    "HOL-Library.Code_Target_Nat"
begin

unbundle bit_operations_syntax

section \<open>Data model\<close>

text \<open>\<open>S3Config\<close>: the user's S3 application configuration.\<close>

record S3Config =
  AccessKey :: string
  SecretKey :: string
  Bucket :: string
  Region :: string
  Accelerate :: bool

text \<open>
  \<open>type Conditions []map[string]string\<close>. A \<open>map[string]string\<close> is kept as the
  list of its entries, keys distinct; reading goes through \<^const>\<open>map_of\<close> and the JSON
  encoder sorts the entries by key, so the order of the entries in the list is not observable.
\<close>

type_synonym gomap = "(string \<times> string) list"

type_synonym Conditions = "gomap list"

text \<open>
  \<open>BBU\<close>: the struct responsible for browser based uploads. \<open>config\<close> is a pointer in
  the source; \<open>NewBBU\<close>, the only constructor, dereferences it, so a session holds a
  configuration.
\<close>

record BBU =
  Conditions :: Conditions
  DateStringISO :: string
  Credential :: string
  config :: S3Config
  minutesToExpiry :: "64 word"
  expiration :: string
  dateString :: string
  secretKey :: string
  region :: string

text \<open>
  \<open>bbuParams\<close>: the struct from which base64 policy and signature are constructed. Only
  the first two fields carry a JSON name; the other four are tagged \<open>json:"-"\<close>.
\<close>

record bbuParams =
  Conditions :: Conditions
  Expiration :: string
  SecretKey :: string
  Policy64 :: string
  Region :: string
  Date :: string

text \<open>\<open>BBUResponse\<close>: the data required to fill the html upload form fields.\<close>

record BBUResponse =
  URL :: string
  RedirectURI :: string
  Algorithm :: string
  Credential :: string
  AccessKey :: string
  Signature :: string
  Policy :: string
  Date :: string
  Key :: string

text \<open>
  \<open>FS4\<close>: the core struct. \<open>config\<close> and \<open>BBU\<close> are pointers and may be nil. The
  \<open>Uploader\<close> field belongs to the SDK wrapper and takes no part in signing.
\<close>

record FS4 =
  config :: "S3Config option"
  BBU :: "BBU option"

text \<open>A run-time panic of the Go program.\<close>

datatype panic = NilPointerDereference

text \<open>The constants of package \<open>fs4strings\<close> that the signing code uses.\<close>

definition AWS4HmacSha256 :: string where
  "AWS4HmacSha256 = ''AWS4-HMAC-SHA256''"

definition CredentialScope :: string where
  "CredentialScope = ''s3/aws4_request''"

definition Key_s :: string where
  "Key_s = ''key''"

definition XAMZCredential :: string where
  "XAMZCredential = ''x-amz-credential''"

definition XAMZAlgorithm :: string where
  "XAMZAlgorithm = ''x-amz-algorithm''"

definition XAMZDate :: string where
  "XAMZDate = ''x-amz-date''"

definition Bucket_s :: string where
  "Bucket_s = ''bucket''"

definition SuccessActionRedirect :: string where
  "SuccessActionRedirect = ''success_action_redirect''"

section \<open>Strings and the \<open>strings\<close> package\<close>

text \<open>
  A Go string is a sequence of bytes; \<^typ>\<open>string\<close> is a list of 8-bit characters, so the
  conversions \<open>[]byte(s)\<close> and \<open>string(b)\<close> of the source are the identity here.
\<close>

text \<open>\<open>strings.Join(elems, sep)\<close>.\<close>

fun strings_Join :: "string list \<Rightarrow> string \<Rightarrow> string" where
  "strings_Join [] sep = []"
| "strings_Join [x] sep = x"
| "strings_Join (x # y # ys) sep = x @ sep @ strings_Join (y # ys) sep"

text \<open>
  \<open>strings.Replace(s, old, new, -1)\<close> for a one-byte \<open>old\<close>: every occurrence is
  replaced (the source calls it with \<open>old = "-"\<close>, \<open>new = ""\<close>).
\<close>

fun strings_Replace :: "string \<Rightarrow> char \<Rightarrow> string \<Rightarrow> string" where
  "strings_Replace [] old new = []"
| "strings_Replace (c # cs) old new =
     (if c = old then new else [c]) @ strings_Replace cs old new"

text \<open>
  \<open>strings.Split(s, sep)\<close> for a one-byte \<open>sep\<close>: the pieces between the separators,
  never an empty slice.
\<close>

fun strings_Split :: "string \<Rightarrow> char \<Rightarrow> string list" where
  "strings_Split [] sep = [[]]"
| "strings_Split (c # cs) sep =
     (if c = sep then [] # strings_Split cs sep
      else (case strings_Split cs sep of
              [] \<Rightarrow> [[c]]
            | p # ps \<Rightarrow> (c # p) # ps))"

section \<open>The \<open>time\<close> package\<close>

text \<open>
  A \<open>time.Time\<close> is an instant together with a location. The instant is kept as seconds
  since 1970-01-01T00:00:00Z plus nanoseconds; the location is the function that gives the
  offset east of UTC, in seconds, in effect at an instant (\<open>time.UTC\<close> is the constant 0,
  \<open>time.FixedZone\<close> a constant, \<open>time.Local\<close> the zone rules of the machine).
\<close>

record Time =
  unixSec :: int
  nsec :: int
  loc :: "int \<Rightarrow> int"

text \<open>The civil date of a day number (days since 1970-01-01), proleptic Gregorian.\<close>

definition civil_from_days :: "int \<Rightarrow> int \<times> int \<times> int" where
  "civil_from_days z0 =
     (let z = z0 + 719468;
          era = z div 146097;
          doe = z - era * 146097;
          yoe = (doe - doe div 1460 + doe div 36524 - doe div 146096) div 365;
          y = yoe + era * 400;
          doy = doe - (365 * yoe + yoe div 4 - yoe div 100);
          mp = (5 * doy + 2) div 153;
          d = doy - (153 * mp + 2) div 5 + 1;
          m = (if mp < 10 then mp + 3 else mp - 9)
      in ((if m \<le> 2 then y + 1 else y), m, d))"

text \<open>The offset that \<open>Format\<close> uses: the one in effect at the instant itself.\<close>

definition zoneOffset :: "Time \<Rightarrow> int" where
  "zoneOffset t = loc t (unixSec t)"

text \<open>Wall-clock seconds in the time's own location.\<close>

definition localSec :: "Time \<Rightarrow> int" where
  "localSec t = unixSec t + zoneOffset t"

definition Time_Date :: "Time \<Rightarrow> int \<times> int \<times> int" where
  "Time_Date t = civil_from_days (localSec t div 86400)"

definition Time_Clock :: "Time \<Rightarrow> int \<times> int \<times> int" where
  "Time_Clock t =
     (let s = localSec t mod 86400
      in (s div 3600, (s mod 3600) div 60, s mod 60))"

text \<open>The decimal digits of a natural number, at least one.\<close>

fun digits :: "nat \<Rightarrow> string" where
  "digits n =
     (if n < 10 then [char_of (48 + n)]
      else digits (n div 10) @ [char_of (48 + n mod 10)])"

declare digits.simps [simp del]

text \<open>
  \<open>appendInt(b, x, width)\<close> of package \<open>time\<close>: a minus sign for a negative number, then
  the digits of the absolute value, zero-padded on the left to \<open>width\<close>.
\<close>

definition appendInt :: "int \<Rightarrow> nat \<Rightarrow> string" where
  "appendInt x width =
     (let ds = digits (nat \<bar>x\<bar>)
      in (if x < 0 then ''-'' else '''') @ replicate (width - length ds) CHR ''0'' @ ds)"

text \<open>\<open>t.Format("2006-01-02")\<close>.\<close>

definition Format_date :: "Time \<Rightarrow> string" where
  "Format_date t =
     (case Time_Date t of (y, m, d) \<Rightarrow>
        appendInt y 4 @ ''-'' @ appendInt m 2 @ ''-'' @ appendInt d 2)"

text \<open>
  The layout element \<open>Z07:00\<close>: \<open>Z\<close> for offset 0, otherwise sign, hours and minutes of
  the offset. Go's \<open>/\<close> and \<open>%\<close> truncate towards zero.
\<close>

definition Format_zone :: "int \<Rightarrow> string" where
  "Format_zone offset =
     (if offset = 0 then ''Z''
      else (let zone = offset sdiv 60
            in (if zone < 0 then ''-'' else ''+'')
               @ appendInt (\<bar>zone\<bar> sdiv 60) 2 @ '':'' @ appendInt (\<bar>zone\<bar> smod 60) 2))"

text \<open>\<open>t.Format(time.RFC3339)\<close>, the layout \<open>2006-01-02T15:04:05Z07:00\<close>.\<close>

definition Format_RFC3339 :: "Time \<Rightarrow> string" where
  "Format_RFC3339 t =
     (case Time_Clock t of (h, mi, s) \<Rightarrow>
        Format_date t @ ''T'' @ appendInt h 2 @ '':'' @ appendInt mi 2 @ '':'' @ appendInt s 2
        @ Format_zone (zoneOffset t))"

text \<open>
  \<open>time.Duration(n) * time.Minute\<close>: a \<open>Duration\<close> is an \<open>int64\<close> count of nanoseconds and
  the product wraps around. \<open>int\<close> is taken to be 64 bits wide.
\<close>

definition minutes :: "64 word \<Rightarrow> 64 word" where
  "minutes n = n * 60000000000"

text \<open>
  \<open>t.Add(d)\<close>: the duration is split into whole seconds and nanoseconds (truncating
  division), and a nanosecond overflow or underflow is carried into the seconds.
\<close>

definition Add :: "Time \<Rightarrow> 64 word \<Rightarrow> Time" where
  "Add t d =
     (let dsec = sint d sdiv 1000000000;
          ns = nsec t + sint d smod 1000000000
      in if ns \<ge> 1000000000 then t\<lparr>unixSec := unixSec t + dsec + 1, nsec := ns - 1000000000\<rparr>
         else if ns < 0 then t\<lparr>unixSec := unixSec t + dsec - 1, nsec := ns + 1000000000\<rparr>
         else t\<lparr>unixSec := unixSec t + dsec, nsec := ns\<rparr>)"

section \<open>Date strings (\<open>dateString\<close>, \<open>dateStringISO\<close>, \<open>expirationDate\<close>)\<close>

definition dateString :: "Time \<Rightarrow> string" where
  "dateString now = strings_Replace (Format_date now) CHR ''-'' ''''"

definition dateStringISO :: "string \<Rightarrow> string" where
  "dateStringISO ds = ds @ ''T000000Z''"

definition expirationDate :: "Time \<Rightarrow> 64 word \<Rightarrow> string" where
  "expirationDate now timeToExpiry =
     (let expiration = Format_RFC3339 (Add now (minutes timeToExpiry))
      in (case strings_Split expiration CHR ''+'' of
            [] \<Rightarrow> ''''
          | p # ps \<Rightarrow> p) @ ''.000Z'')"

section \<open>The \<open>encoding/json\<close> encoder\<close>

text \<open>The value of a byte.\<close>

definition byte :: "char \<Rightarrow> nat" where
  "byte c = of_char c"

definition in_range :: "nat \<Rightarrow> nat \<Rightarrow> char \<Rightarrow> bool" where
  "in_range lo hi c = (lo \<le> byte c \<and> byte c \<le> hi)"

definition hexdigit :: "nat \<Rightarrow> char" where
  "hexdigit n = (if n < 10 then char_of (48 + n) else char_of (87 + n))"

text \<open>
  The width of the UTF-8 sequence at the head of a string, as \<open>utf8.DecodeRuneInString\<close>
  reports it: 1 for an ASCII byte and for every byte that does not start a well-formed
  sequence (overlong forms, surrogates and values above U+10FFFF are not well-formed).
\<close>

fun utf8_size :: "string \<Rightarrow> nat" where
  "utf8_size [] = 0"
| "utf8_size (a # rest) =
     (let x = byte a
      in if 0xC2 \<le> x \<and> x \<le> 0xDF then
           (case rest of
              b # _ \<Rightarrow> if in_range 0x80 0xBF b then 2 else 1
            | _ \<Rightarrow> 1)
         else if 0xE0 \<le> x \<and> x \<le> 0xEF then
           (case rest of
              b # c # _ \<Rightarrow>
                if in_range (if x = 0xE0 then 0xA0 else 0x80) (if x = 0xED then 0x9F else 0xBF) b
                   \<and> in_range 0x80 0xBF c
                then 3 else 1
            | _ \<Rightarrow> 1)
         else if 0xF0 \<le> x \<and> x \<le> 0xF4 then
           (case rest of
              b # c # d # _ \<Rightarrow>
                if in_range (if x = 0xF0 then 0x90 else 0x80) (if x = 0xF4 then 0x8F else 0xBF) b
                   \<and> in_range 0x80 0xBF c \<and> in_range 0x80 0xBF d
                then 4 else 1
            | _ \<Rightarrow> 1)
         else 1)"

text \<open>
  What the encoder writes for one ASCII byte (HTML escaping is on for \<open>json.Marshal\<close>):
  quote and backslash get a backslash; backspace, form feed, newline, carriage return and tab
  their short escapes; the other control bytes and \<open><\<close>, \<open>>\<close>, \<open>&\<close> the form
  of a backslash, \<open>u00\<close> and two hex digits; every other byte is copied.
\<close>

definition escape_ascii :: "char \<Rightarrow> string" where
  "escape_ascii c =
     (let b = byte c
      in if b = 0x22 \<or> b = 0x5C then [CHR 0x5C, c]
         else if b = 0x08 then [CHR 0x5C, CHR ''b'']
         else if b = 0x0C then [CHR 0x5C, CHR ''f'']
         else if b = 0x0A then [CHR 0x5C, CHR ''n'']
         else if b = 0x0D then [CHR 0x5C, CHR ''r'']
         else if b = 0x09 then [CHR 0x5C, CHR ''t'']
         else if b < 0x20 \<or> b = 0x3C \<or> b = 0x3E \<or> b = 0x26 then
           [CHR 0x5C, CHR ''u'', CHR ''0'', CHR ''0'', hexdigit (b div 16), hexdigit (b mod 16)]
         else [c])"

text \<open>
  The body of a JSON string: ASCII bytes as above, a byte that is not valid UTF-8 as the
  escape of U+FFFD, the sequences of U+2028 and U+2029 as their escapes, every other UTF-8
  sequence copied.
\<close>

function json_escape :: "string \<Rightarrow> string" where
  "json_escape [] = []"
| "json_escape (a # rest) =
     (if byte a < 0x80 then escape_ascii a @ json_escape rest
      else (let n = utf8_size (a # rest)
            in if n \<le> 1 then CHR 0x5C # ''ufffd'' @ json_escape rest
               else if take 3 (a # rest) = [CHR 0xE2, CHR 0x80, CHR 0xA8] then
                 CHR 0x5C # ''u2028'' @ json_escape (drop 2 rest)
               else if take 3 (a # rest) = [CHR 0xE2, CHR 0x80, CHR 0xA9] then
                 CHR 0x5C # ''u2029'' @ json_escape (drop 2 rest)
               else take n (a # rest) @ json_escape (drop (n - 1) rest)))"
  by pat_completeness auto
termination
  by (relation "measure length") auto

definition json_string :: "string \<Rightarrow> string" where
  "json_string s = CHR 0x22 # json_escape s @ [CHR 0x22]"

text \<open>
  The Go values that reach the encoder. A struct is the list of its fields in declaration
  order, each with its JSON name, or \<open>None\<close> for the tag \<open>json:"-"\<close>. A map is the list
  of its entries. Slices and maps are not nil. \<open>GoChan\<close> stands for the values that
  \<open>encoding/json\<close> refuses (channels, functions, complex numbers).
\<close>

datatype goval =
    GoString string
  | GoSlice "goval list"
  | GoMap "(string \<times> goval) list"
  | GoStruct "(string option \<times> goval) list"
  | GoChan

datatype marshal_error = UnsupportedTypeError

text \<open>One \<open>"name":value\<close> member of an object.\<close>

definition member :: "string \<times> string \<Rightarrow> string" where
  "member kv = json_string (fst kv) @ '':'' @ snd kv"

text \<open>
  \<open>json.Marshal\<close>. Map entries are written sorted by key, struct fields in declaration
  order without the fields tagged \<open>-\<close>. The three helper functions encode the elements of a
  slice, the entries of a map and the fields of a struct; the first error ends the encoding.
\<close>

fun json_Marshal :: "goval \<Rightarrow> marshal_error + string"
  and marshal_elems :: "goval list \<Rightarrow> marshal_error + string list"
  and marshal_entries :: "(string \<times> goval) list \<Rightarrow> marshal_error + (string \<times> string) list"
  and marshal_fields :: "(string option \<times> goval) list \<Rightarrow> marshal_error + (string \<times> string) list"
where
  "json_Marshal (GoString s) = Inr (json_string s)"
| "json_Marshal (GoSlice xs) =
     (case marshal_elems xs of
        Inl e \<Rightarrow> Inl e
      | Inr ts \<Rightarrow> Inr (''['' @ strings_Join ts '','' @ '']''))"
| "json_Marshal (GoMap kvs) =
     (case marshal_entries kvs of
        Inl e \<Rightarrow> Inl e
      | Inr ms \<Rightarrow> Inr (''{'' @ strings_Join (map member (sort_key fst ms)) '','' @ ''}''))"
| "json_Marshal (GoStruct fs) =
     (case marshal_fields fs of
        Inl e \<Rightarrow> Inl e
      | Inr ms \<Rightarrow> Inr (''{'' @ strings_Join (map member ms) '','' @ ''}''))"
| "json_Marshal GoChan = Inl UnsupportedTypeError"
| "marshal_elems [] = Inr []"
| "marshal_elems (x # xs) =
     (case json_Marshal x of
        Inl e \<Rightarrow> Inl e
      | Inr t \<Rightarrow> (case marshal_elems xs of Inl e \<Rightarrow> Inl e | Inr ts \<Rightarrow> Inr (t # ts)))"
| "marshal_entries [] = Inr []"
| "marshal_entries ((k, v) # kvs) =
     (case json_Marshal v of
        Inl e \<Rightarrow> Inl e
      | Inr t \<Rightarrow> (case marshal_entries kvs of Inl e \<Rightarrow> Inl e | Inr ms \<Rightarrow> Inr ((k, t) # ms)))"
| "marshal_fields [] = Inr []"
| "marshal_fields ((None, v) # fs) = marshal_fields fs"
| "marshal_fields ((Some name, v) # fs) =
     (case json_Marshal v of
        Inl e \<Rightarrow> Inl e
      | Inr t \<Rightarrow> (case marshal_fields fs of Inl e \<Rightarrow> Inl e | Inr ms \<Rightarrow> Inr ((name, t) # ms)))"

text \<open>A \<open>map[string]string\<close> and a \<open>[]map[string]string\<close> as encoder input.\<close>

definition gomap_val :: "gomap \<Rightarrow> goval" where
  "gomap_val m = GoMap (map (\<lambda>kv. (fst kv, GoString (snd kv))) m)"

definition Conditions_val :: "Conditions \<Rightarrow> goval" where
  "Conditions_val cs = GoSlice (map gomap_val cs)"

text \<open>The struct \<open>bbuParams\<close> with its field tags.\<close>

definition bbuParams_val :: "bbuParams \<Rightarrow> goval" where
  "bbuParams_val p =
     GoStruct
       [(Some ''conditions'', Conditions_val (bbuParams.Conditions p)),
        (Some ''expiration'', GoString (bbuParams.Expiration p)),
        (None, GoString (bbuParams.SecretKey p)),
        (None, GoString (bbuParams.Policy64 p)),
        (None, GoString (bbuParams.Region p)),
        (None, GoString (bbuParams.Date p))]"

text \<open>The struct \<open>BBUResponse\<close> with its field tags.\<close>

definition BBUResponse_val :: "BBUResponse \<Rightarrow> goval" where
  "BBUResponse_val r =
     GoStruct
       [(Some ''url'', GoString (BBUResponse.URL r)),
        (Some ''success_action_redirect'', GoString (BBUResponse.RedirectURI r)),
        (Some ''x_amz_algorithm'', GoString (BBUResponse.Algorithm r)),
        (Some ''x_amz_credential'', GoString (BBUResponse.Credential r)),
        (Some ''aws_access_key_id'', GoString (BBUResponse.AccessKey r)),
        (Some ''signature'', GoString (BBUResponse.Signature r)),
        (Some ''policy'', GoString (BBUResponse.Policy r)),
        (Some ''x_amz_date'', GoString (BBUResponse.Date r)),
        (Some ''key'', GoString (BBUResponse.Key r))]"

section \<open>\<open>base64.StdEncoding\<close>\<close>

definition b64char :: "nat \<Rightarrow> char" where
  "b64char n =
     (if n < 26 then char_of (65 + n)
      else if n < 52 then char_of (71 + n)
      else if n < 62 then char_of (n - 4)
      else if n = 62 then CHR ''+''
      else CHR ''/'')"

text \<open>\<open>EncodeToString\<close>: three bytes become four characters, the tail is padded with \<open>=\<close>.\<close>

fun base64_encode :: "string \<Rightarrow> string" where
  "base64_encode [] = []"
| "base64_encode [a] =
     (let x = byte a
      in [b64char (x div 4), b64char ((x mod 4) * 16), CHR ''='', CHR ''=''])"
| "base64_encode [a, b] =
     (let x = byte a; y = byte b
      in [b64char (x div 4), b64char ((x mod 4) * 16 + y div 16),
          b64char ((y mod 16) * 4), CHR ''=''])"
| "base64_encode (a # b # c # rest) =
     (let x = byte a; y = byte b; z = byte c
      in [b64char (x div 4), b64char ((x mod 4) * 16 + y div 16),
          b64char ((y mod 16) * 4 + z div 64), b64char (z mod 64)]
         @ base64_encode rest)"



section \<open>\<open>crypto/sha256\<close>, \<open>crypto/hmac\<close> and \<open>encoding/hex\<close>\<close>

text \<open>SHA-256 (FIPS 180-4) on 32-bit words.\<close>

definition rotr :: "nat \<Rightarrow> 32 word \<Rightarrow> 32 word" where
  "rotr n x = (drop_bit n x) OR (push_bit (32 - n) x)"

definition Ch :: "32 word \<Rightarrow> 32 word \<Rightarrow> 32 word \<Rightarrow> 32 word" where
  "Ch x y z = (x AND y) XOR (NOT x AND z)"

definition Maj :: "32 word \<Rightarrow> 32 word \<Rightarrow> 32 word \<Rightarrow> 32 word" where
  "Maj x y z = (x AND y) XOR (x AND z) XOR (y AND z)"

definition bsig0 :: "32 word \<Rightarrow> 32 word" where
  "bsig0 x = rotr 2 x XOR rotr 13 x XOR rotr 22 x"

definition bsig1 :: "32 word \<Rightarrow> 32 word" where
  "bsig1 x = rotr 6 x XOR rotr 11 x XOR rotr 25 x"

definition ssig0 :: "32 word \<Rightarrow> 32 word" where
  "ssig0 x = rotr 7 x XOR rotr 18 x XOR drop_bit 3 x"

definition ssig1 :: "32 word \<Rightarrow> 32 word" where
  "ssig1 x = rotr 17 x XOR rotr 19 x XOR drop_bit 10 x"

definition K256 :: "32 word list" where
  "K256 =
     [0x428A2F98, 0x71374491, 0xB5C0FBCF, 0xE9B5DBA5, 0x3956C25B, 0x59F111F1,
      0x923F82A4, 0xAB1C5ED5, 0xD807AA98, 0x12835B01, 0x243185BE, 0x550C7DC3,
      0x72BE5D74, 0x80DEB1FE, 0x9BDC06A7, 0xC19BF174, 0xE49B69C1, 0xEFBE4786,
      0x0FC19DC6, 0x240CA1CC, 0x2DE92C6F, 0x4A7484AA, 0x5CB0A9DC, 0x76F988DA,
      0x983E5152, 0xA831C66D, 0xB00327C8, 0xBF597FC7, 0xC6E00BF3, 0xD5A79147,
      0x06CA6351, 0x14292967, 0x27B70A85, 0x2E1B2138, 0x4D2C6DFC, 0x53380D13,
      0x650A7354, 0x766A0ABB, 0x81C2C92E, 0x92722C85, 0xA2BFE8A1, 0xA81A664B,
      0xC24B8B70, 0xC76C51A3, 0xD192E819, 0xD6990624, 0xF40E3585, 0x106AA070,
      0x19A4C116, 0x1E376C08, 0x2748774C, 0x34B0BCB5, 0x391C0CB3, 0x4ED8AA4A,
      0x5B9CCA4F, 0x682E6FF3, 0x748F82EE, 0x78A5636F, 0x84C87814, 0x8CC70208,
      0x90BEFFFA, 0xA4506CEB, 0xBEF9A3F7, 0xC67178F2]"

definition H256 ::
  "32 word \<times> 32 word \<times> 32 word \<times> 32 word \<times> 32 word \<times> 32 word \<times> 32 word \<times> 32 word" where
  "H256 =
     (0x6A09E667, 0xBB67AE85, 0x3C6EF372, 0xA54FF53A, 0x510E527F, 0x9B05688C,
      0x1F83D9AB, 0x5BE0CD19)"

text \<open>Big-endian bytes of a number, \<open>n\<close> of them.\<close>

fun be_bytes :: "nat \<Rightarrow> nat \<Rightarrow> string" where
  "be_bytes 0 x = []"
| "be_bytes (Suc n) x = be_bytes n (x div 256) @ [char_of (x mod 256)]"

text \<open>The number that a big-endian byte string denotes.\<close>

definition be_nat :: "string \<Rightarrow> nat" where
  "be_nat bs = foldl (\<lambda>acc c. acc * 256 + byte c) 0 bs"

text \<open>
  Padding: the byte \<open>0x80\<close>, zero bytes up to 56 modulo 64, the length in bits as eight
  bytes.
\<close>

definition sha256_pad :: "string \<Rightarrow> string" where
  "sha256_pad m =
     m @ [CHR 0x80] @ replicate ((64 - (length m + 9) mod 64) mod 64) (CHR 0x00)
       @ be_bytes 8 ((8 * length m) mod 2 ^ 64)"

text \<open>Cutting a string into pieces of \<open>n\<close> bytes.\<close>

function chunks :: "nat \<Rightarrow> string \<Rightarrow> string list" where
  "chunks n bs = (if n = 0 \<or> bs = [] then [] else take n bs # chunks n (drop n bs))"
  by pat_completeness auto
termination
  by (relation "measure (\<lambda>(n, bs). length bs)") auto

declare chunks.simps [simp del]

text \<open>The message schedule: \<open>k\<close> further words after the ones already there.\<close>

fun schedule :: "nat \<Rightarrow> 32 word list \<Rightarrow> 32 word list" where
  "schedule 0 w = w"
| "schedule (Suc k) w =
     (let t = length w
      in schedule k
           (w @ [ssig1 (w ! (t - 2)) + w ! (t - 7) + ssig0 (w ! (t - 15)) + w ! (t - 16)]))"

text \<open>One round on the eight working variables.\<close>

type_synonym hash256 =
  "32 word \<times> 32 word \<times> 32 word \<times> 32 word \<times> 32 word \<times> 32 word \<times> 32 word \<times> 32 word"

definition round256 :: "hash256 \<Rightarrow> 32 word \<times> 32 word \<Rightarrow> hash256" where
  "round256 v kw =
     (case v of (a, b, c, d, e, f, g, h) \<Rightarrow>
        (let t1 = h + bsig1 e + Ch e f g + fst kw + snd kw;
             t2 = bsig0 a + Maj a b c
         in (t1 + t2, a, b, c, d + t1, e, f, g)))"

definition add256 :: "hash256 \<Rightarrow> hash256 \<Rightarrow> hash256" where
  "add256 u v =
     (case u of (a, b, c, d, e, f, g, h) \<Rightarrow>
        (case v of (a', b', c', d', e', f', g', h') \<Rightarrow>
           (a + a', b + b', c + c', d + d', e + e', f + f', g + g', h + h')))"

text \<open>The compression of one 64-byte block into the hash value.\<close>

definition compress :: "hash256 \<Rightarrow> string \<Rightarrow> hash256" where
  "compress hv block =
     (let w = schedule 48 (map (\<lambda>q. of_nat (be_nat q)) (chunks 4 block))
      in add256 hv (foldl round256 hv (zip K256 w)))"

definition sha256 :: "string \<Rightarrow> string" where
  "sha256 m =
     (case foldl compress H256 (chunks 64 (sha256_pad m)) of
        (a, b, c, d, e, f, g, h) \<Rightarrow>
          concat (map (\<lambda>x. be_bytes 4 (unat x)) [a, b, c, d, e, f, g, h]))"

text \<open>HMAC (RFC 2104) with SHA-256: block size 64, a longer key is hashed first.\<close>

definition xor_byte :: "nat \<Rightarrow> char \<Rightarrow> char" where
  "xor_byte p c = char_of (byte c XOR p)"

definition hmac_sha256 :: "string \<Rightarrow> string \<Rightarrow> string" where
  "hmac_sha256 key msg =
     (let k0 = (if length key > 64 then sha256 key else key);
          k = k0 @ replicate (64 - length k0) (CHR 0x00)
      in sha256 (map (xor_byte 0x5C) k @ sha256 (map (xor_byte 0x36) k @ msg)))"

text \<open>
  The \<open>hash.Hash\<close> returned by \<open>hmac.New(sha256.New, key)\<close>: it holds the key and
  the bytes written so far; \<open>Sum(b)\<close> appends the HMAC of what was written to \<open>b\<close> and
  leaves the hash as it is.
\<close>

record Hash =
  hkey :: string
  written :: string

definition hmac_New :: "string \<Rightarrow> Hash" where
  "hmac_New key = \<lparr>hkey = key, written = []\<rparr>"

definition Hash_Write :: "Hash \<Rightarrow> string \<Rightarrow> Hash" where
  "Hash_Write h p = h\<lparr>written := written h @ p\<rparr>"

definition Hash_Sum :: "Hash \<Rightarrow> string \<Rightarrow> string" where
  "Hash_Sum h b = b @ hmac_sha256 (hkey h) (written h)"

text \<open>\<open>hex.EncodeToString\<close>: two lowercase hex digits for each byte.\<close>

definition hex_EncodeToString :: "string \<Rightarrow> string" where
  "hex_EncodeToString bs =
     concat (map (\<lambda>c. [hexdigit (byte c div 16), hexdigit (byte c mod 16)]) bs)"

section \<open>The HMAC helpers of the package\<close>

definition shmacSHA256 :: "string \<Rightarrow> string \<Rightarrow> Hash" where
  "shmacSHA256 key message = Hash_Write (hmac_New key) message"

definition hmacSHA256 :: "Hash \<Rightarrow> string \<Rightarrow> Hash" where
  "hmacSHA256 key message = shmacSHA256 (Hash_Sum key []) message"

definition hmacToHex :: "Hash \<Rightarrow> string \<Rightarrow> string" where
  "hmacToHex key message = hex_EncodeToString (Hash_Sum (hmacSHA256 key message) [])"

section \<open>Sessions (\<open>NewBBU\<close>, \<open>AddCondition\<close>, \<open>conditionForKey\<close>)\<close>

definition credential :: "S3Config \<Rightarrow> string \<Rightarrow> string" where
  "credential c ds =
     strings_Join [S3Config.AccessKey c, ds, S3Config.Region c, CredentialScope] ''/''"

definition setDefaultConditions :: "BBU \<Rightarrow> BBU" where
  "setDefaultConditions bbu =
     bbu\<lparr>BBU.Conditions :=
       [[(Bucket_s, S3Config.Bucket (BBU.config bbu))],
        [(XAMZCredential, BBU.Credential bbu)],
        [(XAMZAlgorithm, AWS4HmacSha256)],
        [(XAMZDate, BBU.DateStringISO bbu)]]\<rparr>"

text \<open>
  \<open>NewBBU\<close>: \<open>now\<close> is the value of the single \<open>time.Now()\<close> call. The receiver's
  \<open>BBU\<close> field is set to the new session, which is also returned. A nil \<open>config\<close>
  panics in \<open>credential\<close>. The fields \<open>minutesToExpiry\<close>, \<open>secretKey\<close> and
  \<open>region\<close> are not in the struct literal and keep their zero values.
\<close>

definition NewBBU :: "FS4 \<Rightarrow> Time \<Rightarrow> 64 word \<Rightarrow> panic + (BBU \<times> FS4)" where
  "NewBBU fs4 now mins =
     (case FS4.config fs4 of
        None \<Rightarrow> Inl NilPointerDereference
      | Some cfg \<Rightarrow>
          (let ds = dateString now;
               bbu = setDefaultConditions
                 \<lparr>BBU.Conditions = [],
                  DateStringISO = dateStringISO ds,
                  Credential = credential cfg ds,
                  config = cfg,
                  minutesToExpiry = 0,
                  expiration = expirationDate now mins,
                  dateString = ds,
                  secretKey = [],
                  region = []\<rparr>
           in Inr (bbu, fs4\<lparr>FS4.BBU := Some bbu\<rparr>)))"

definition AddCondition :: "BBU \<Rightarrow> string \<Rightarrow> string \<Rightarrow> BBU" where
  "AddCondition bbu key val =
     bbu\<lparr>BBU.Conditions := BBU.Conditions bbu @ [[(key, val)]]\<rparr>"

text \<open>The loop of \<open>conditionForKey\<close> over the slice, from index 0.\<close>

fun conditionForKey_loop :: "Conditions \<Rightarrow> string \<Rightarrow> string" where
  "conditionForKey_loop [] key = []"
| "conditionForKey_loop (m # ms) key =
     (case map_of m key of
        Some v \<Rightarrow> v
      | None \<Rightarrow> conditionForKey_loop ms key)"

definition conditionForKey :: "BBU \<Rightarrow> string \<Rightarrow> string" where
  "conditionForKey bbu key = conditionForKey_loop (BBU.Conditions bbu) key"

definition bucketURL :: "BBU \<Rightarrow> string" where
  "bucketURL bbu =
     (let s3s = (if S3Config.Accelerate (BBU.config bbu) then ''.s3-accelerate'' else ''.s3'')
      in ''http://'' @ S3Config.Bucket (BBU.config bbu) @ s3s @ ''.amazonaws.com/'')"

definition toParams :: "BBU \<Rightarrow> bbuParams" where
  "toParams bbu =
     \<lparr>bbuParams.Conditions = BBU.Conditions bbu,
      Expiration = BBU.expiration bbu,
      SecretKey = S3Config.SecretKey (BBU.config bbu),
      Policy64 = [],
      Region = S3Config.Region (BBU.config bbu),
      Date = BBU.dateString bbu\<rparr>"

section \<open>Policy and signature (\<open>toPolicy\<close>, \<open>toSignature\<close>, \<open>FormFields\<close>)\<close>

text \<open>
  \<open>toPolicy\<close> has a pointer receiver and stores the policy in \<open>Policy64\<close>: the function
  returns the string together with the updated struct. The JSON encoder is an argument of
  \<open>toPolicy_via\<close>, so that both branches on \<open>err\<close> have a meaning; \<open>toPolicy\<close> is the
  source's function, with \<open>json.Marshal\<close>.
\<close>

definition toPolicy_via ::
  "(goval \<Rightarrow> marshal_error + string) \<Rightarrow> bbuParams \<Rightarrow> string \<times> bbuParams" where
  "toPolicy_via marshal bbu =
     (case marshal (bbuParams_val bbu) of
        Inl err \<Rightarrow> ([], bbu)
      | Inr paramsJSON \<Rightarrow>
          (let p64 = base64_encode paramsJSON
           in (p64, bbu\<lparr>Policy64 := p64\<rparr>)))"

definition toPolicy :: "bbuParams \<Rightarrow> string \<times> bbuParams" where
  "toPolicy = toPolicy_via json_Marshal"

definition toSignature_via ::
  "(goval \<Rightarrow> marshal_error + string) \<Rightarrow> bbuParams \<Rightarrow> string \<times> bbuParams" where
  "toSignature_via marshal bbu0 =
     (let bbu = (if bbuParams.Policy64 bbu0 = [] then snd (toPolicy_via marshal bbu0) else bbu0);
          dateKey = shmacSHA256 (''AWS4'' @ bbuParams.SecretKey bbu) (bbuParams.Date bbu);
          dateRegionKey = hmacSHA256 dateKey (bbuParams.Region bbu);
          dateRegionServiceKey = hmacSHA256 dateRegionKey ''s3'';
          signingKey = hmacSHA256 dateRegionServiceKey ''aws4_request''
      in (hmacToHex signingKey (bbuParams.Policy64 bbu), bbu))"

definition toSignature :: "bbuParams \<Rightarrow> string \<times> bbuParams" where
  "toSignature = toSignature_via json_Marshal"

text \<open>\<open>Policy\<close> and \<open>Signature\<close>: each works on a fresh \<open>bbuParams\<close>.\<close>

definition Policy :: "BBU \<Rightarrow> string" where
  "Policy bbu = fst (toPolicy (toParams bbu))"

definition Signature :: "BBU \<Rightarrow> string" where
  "Signature bbu = fst (toSignature (toParams bbu))"

text \<open>
  The struct \<open>bbuResponse\<close> that \<open>FormFields\<close> builds. The calls in the composite
  literal run in source order: \<open>toPolicy\<close> first, then \<open>toSignature\<close> on the same
  \<open>bbuParams\<close>.
\<close>

definition bbuResponse_via :: "(goval \<Rightarrow> marshal_error + string) \<Rightarrow> BBU \<Rightarrow> BBUResponse" where
  "bbuResponse_via marshal bbu =
     (let bbuParams = toParams bbu;
          redirectURI = conditionForKey bbu SuccessActionRedirect;
          key = conditionForKey bbu Key_s;
          url = bucketURL bbu;
          cred = credential (BBU.config bbu) (BBU.dateString bbu);
          (policy, bbuParams1) = toPolicy_via marshal bbuParams;
          (signature, bbuParams2) = toSignature_via marshal bbuParams1
      in \<lparr>URL = url,
          RedirectURI = redirectURI,
          Algorithm = AWS4HmacSha256,
          Credential = cred,
          AccessKey = S3Config.AccessKey (BBU.config bbu),
          Signature = signature,
          Policy = policy,
          Date = BBU.DateStringISO bbu,
          Key = key\<rparr>)"

definition FormFields_via ::
  "(goval \<Rightarrow> marshal_error + string) \<Rightarrow> BBU \<Rightarrow> marshal_error + string" where
  "FormFields_via marshal bbu = marshal (BBUResponse_val (bbuResponse_via marshal bbu))"

text \<open>\<open>FormFields\<close>: the JSON response, or the error of \<open>json.Marshal\<close>.\<close>

definition FormFields :: "BBU \<Rightarrow> marshal_error + string" where
  "FormFields = FormFields_via json_Marshal"

section \<open>The specification's operations\<close>

text \<open>
  The keyed-hash primitive of the specification, in its words: \<open>Hmac\<close> is standard
  HMAC-SHA256, \<open>DeriveSigningKey\<close> the four-stage derivation, \<open>SignHex\<close> the HMAC
  rendered as lowercase hex.
\<close>

definition Hmac :: "string \<Rightarrow> string \<Rightarrow> string" where
  "Hmac key message = hmac_sha256 key message"

definition DeriveSigningKey :: "string \<Rightarrow> string \<Rightarrow> string \<Rightarrow> string" where
  "DeriveSigningKey secret dateCompact reg =
     (let dateKey = Hmac (''AWS4'' @ secret) dateCompact;
          regionKey = Hmac dateKey reg;
          serviceKey = Hmac regionKey ''s3'';
          signingKey = Hmac serviceKey ''aws4_request''
      in signingKey)"

definition lower_hex :: "string \<Rightarrow> string" where
  "lower_hex bs =
     concat (map (\<lambda>c. [''0123456789abcdef'' ! (byte c div 16),
                        ''0123456789abcdef'' ! (byte c mod 16)]) bs)"

definition SignHex :: "string \<Rightarrow> string \<Rightarrow> string" where
  "SignHex signingKey message = lower_hex (Hmac signingKey message)"

text \<open>\<open>t.UTC()\<close>: the same instant with the location set to UTC.\<close>

definition Time_UTC :: "Time \<Rightarrow> Time" where
  "Time_UTC t = t\<lparr>loc := (\<lambda>_. 0)\<rparr>"

text \<open>
  JSON documents of strings, arrays and objects, and their text: the members of an object in
  the order given, no white space, strings written as the encoder writes them.
\<close>

datatype json =
    JString string
  | JArray "json list"
  | JObject "(string \<times> json) list"

fun render :: "json \<Rightarrow> string" where
  "render (JString s) = json_string s"
| "render (JArray xs) = ''['' @ strings_Join (map render xs) '','' @ '']''"
| "render (JObject ms) =
     ''{'' @ strings_Join (map (\<lambda>kv. json_string (fst kv) @ '':'' @ render (snd kv)) ms) '',''
       @ ''}''"



text \<open>A number in at least \<open>w\<close> decimal digits, zero-padded, without sign.\<close>

definition pad :: "nat \<Rightarrow> int \<Rightarrow> string" where
  "pad w x = replicate (w - length (digits (nat \<bar>x\<bar>))) CHR ''0'' @ digits (nat \<bar>x\<bar>)"

section \<open>The signing key chain\<close>

lemma Sum_shmacSHA256: "Hash_Sum (shmacSHA256 key message) [] = Hmac key message"
  by (simp add: Hash_Sum_def shmacSHA256_def Hash_Write_def hmac_New_def Hmac_def)

lemma hexdigit_nth: "n < 16 \<Longrightarrow> hexdigit n = ''0123456789abcdef'' ! n"
proof -
  assume "n < 16"
  then have "n \<in> {0, 1, 2, 3, 4, 5, 6, 7, 8, 9, 10, 11, 12, 13, 14, 15}"
    by simp arith
  then show ?thesis
    by (auto simp: hexdigit_def char_of_eq_iff)
qed

lemma hex_EncodeToString_lower_hex: "hex_EncodeToString bs = lower_hex bs"
proof -
  have "byte c div 16 < 16" and "byte c mod 16 < 16" for c
  proof -
    have "byte c < 256"
      by (simp add: byte_def)
    then show "byte c div 16 < 16" by simp
    show "byte c mod 16 < 16" by simp
  qed
  then show ?thesis
    by (simp add: hex_EncodeToString_def lower_hex_def hexdigit_nth)
qed

lemma Sum_hmacSHA256: "Hash_Sum (hmacSHA256 h message) [] = Hmac (Hash_Sum h []) message"
  by (simp add: hmacSHA256_def Sum_shmacSHA256)

lemma hmacToHex_SignHex: "hmacToHex h message = SignHex (Hash_Sum h []) message"
  by (simp add: hmacToHex_def SignHex_def Sum_hmacSHA256 hex_EncodeToString_lower_hex)

lemma toSignature_via_eq:
  "toSignature_via marshal p =
     (let q = (if bbuParams.Policy64 p = [] then snd (toPolicy_via marshal p) else p)
      in (SignHex (DeriveSigningKey (bbuParams.SecretKey q) (bbuParams.Date q)
                     (bbuParams.Region q))
            (bbuParams.Policy64 q), q))"
  by (simp add: toSignature_via_def Let_def hmacToHex_SignHex Sum_hmacSHA256 Sum_shmacSHA256
      DeriveSigningKey_def)

lemma toPolicy_via_fields:
  "bbuParams.SecretKey (snd (toPolicy_via marshal p)) = bbuParams.SecretKey p"
  "bbuParams.Date (snd (toPolicy_via marshal p)) = bbuParams.Date p"
  "bbuParams.Region (snd (toPolicy_via marshal p)) = bbuParams.Region p"
  "bbuParams.Policy64 (snd (toPolicy_via marshal p)) =
     (case marshal (bbuParams_val p) of
        Inl e \<Rightarrow> bbuParams.Policy64 p
      | Inr js \<Rightarrow> base64_encode js)"
  "fst (toPolicy_via marshal p) =
     (case marshal (bbuParams_val p) of Inl e \<Rightarrow> [] | Inr js \<Rightarrow> base64_encode js)"
  by (simp_all add: toPolicy_via_def Let_def split: sum.splits)

lemma toPolicy_via_cached:
  assumes "bbuParams.Policy64 p = []"
  shows "bbuParams.Policy64 (snd (toPolicy_via marshal p)) = fst (toPolicy_via marshal p)"
  using assms by (simp add: toPolicy_via_fields split: sum.splits)

lemma toPolicy_via_again:
  assumes "bbuParams.Policy64 p = []" "fst (toPolicy_via marshal p) = []"
  shows "snd (toPolicy_via marshal p) = p"
  using assms by (cases p) (auto simp: toPolicy_via_def Let_def split: sum.splits)

lemma toSignature_after_toPolicy:
  assumes "bbuParams.Policy64 p = []"
  shows "toSignature_via marshal (snd (toPolicy_via marshal p)) =
     (SignHex (DeriveSigningKey (bbuParams.SecretKey p) (bbuParams.Date p) (bbuParams.Region p))
        (fst (toPolicy_via marshal p)),
      snd (toPolicy_via marshal p))"
proof (cases "fst (toPolicy_via marshal p) = []")
  case True
  then have same: "snd (toPolicy_via marshal p) = p"
    using assms by (rule toPolicy_via_again [rotated])
  show ?thesis
    using assms True by (simp add: toSignature_via_eq same Let_def toPolicy_via_fields)
next
  case False
  then have "bbuParams.Policy64 (snd (toPolicy_via marshal p)) \<noteq> []"
    using assms by (simp add: toPolicy_via_cached)
  then show ?thesis
    using assms False
    by (simp add: toSignature_via_eq Let_def toPolicy_via_fields split: sum.splits)
qed

lemma bbuResponse_via_Policy:
  "BBUResponse.Policy (bbuResponse_via marshal bbu) = fst (toPolicy_via marshal (toParams bbu))"
  by (simp add: bbuResponse_via_def Let_def case_prod_beta)

lemma bbuResponse_via_Signature:
  "BBUResponse.Signature (bbuResponse_via marshal bbu) =
     fst (toSignature_via marshal (snd (toPolicy_via marshal (toParams bbu))))"
  by (simp add: bbuResponse_via_def Let_def case_prod_beta)

lemma toParams_fields:
  "bbuParams.Policy64 (toParams bbu) = []"
  "bbuParams.SecretKey (toParams bbu) = S3Config.SecretKey (BBU.config bbu)"
  "bbuParams.Region (toParams bbu) = S3Config.Region (BBU.config bbu)"
  "bbuParams.Date (toParams bbu) = BBU.dateString bbu"
  "bbuParams.Conditions (toParams bbu) = BBU.Conditions bbu"
  "bbuParams.Expiration (toParams bbu) = BBU.expiration bbu"
  by (simp_all add: toParams_def)

lemma Signature_eq:
  "Signature bbu =
     SignHex (DeriveSigningKey (S3Config.SecretKey (BBU.config bbu)) (BBU.dateString bbu)
                (S3Config.Region (BBU.config bbu)))
       (Policy bbu)"
  by (simp add: Signature_def Policy_def toSignature_def toPolicy_def toSignature_via_eq
      toPolicy_via_fields toParams_fields Let_def split: sum.splits)

lemma bbuResponse_Signature_eq:
  "BBUResponse.Signature (bbuResponse_via json_Marshal bbu) =
     SignHex (DeriveSigningKey (S3Config.SecretKey (BBU.config bbu)) (BBU.dateString bbu)
                (S3Config.Region (BBU.config bbu)))
       (Policy bbu)"
  by (simp add: bbuResponse_via_Signature toSignature_after_toPolicy toParams_fields
      Policy_def toPolicy_def)

lemma bbuResponse_Signature:
  "BBUResponse.Signature (bbuResponse_via json_Marshal bbu) = Signature bbu"
  by (simp add: Signature_eq bbuResponse_Signature_eq)

text \<open>
  C1. For every session, the signature that \<open>Signature\<close> returns and the one that
  \<open>FormFields\<close> puts into its response is the lowercase hex of the HMAC-SHA256 of the
  base64 policy string, under the key of the four-stage chain that starts from
  \<open>"AWS4" + secretKey\<close> and runs over the compact date, the region, \<open>"s3"\<close> and
  \<open>"aws4_request"\<close>.
\<close>

theorem Signature_is_SignHex_of_Policy:
  "Signature bbu =
     SignHex (DeriveSigningKey (S3Config.SecretKey (BBU.config bbu)) (BBU.dateString bbu)
                (S3Config.Region (BBU.config bbu)))
       (Policy bbu)
   \<and> BBUResponse.Signature (bbuResponse_via json_Marshal bbu) =
     SignHex (DeriveSigningKey (S3Config.SecretKey (BBU.config bbu)) (BBU.dateString bbu)
                (S3Config.Region (BBU.config bbu)))
       (BBUResponse.Policy (bbuResponse_via json_Marshal bbu))
   \<and> BBUResponse.Signature (bbuResponse_via json_Marshal bbu) = Signature bbu"
  by (simp add: Signature_eq bbuResponse_Signature_eq bbuResponse_via_Policy Policy_def
      toPolicy_def)

text \<open>
  C3. In the response that \<open>FormFields\<close> builds, whatever the JSON encoder does, the
  \<open>Policy\<close> field is the string returned by \<open>toPolicy\<close>; after that call the cached
  \<open>Policy64\<close> holds the same string; \<open>toSignature\<close> leaves the cache as it is; and the
  \<open>Signature\<close> field is \<open>hmacToHex\<close> of the signing key chain over exactly the string in
  the \<open>Policy\<close> field.
\<close>

theorem FormFields_signs_the_policy_field:
  "BBUResponse.Policy (bbuResponse_via marshal bbu) = fst (toPolicy_via marshal (toParams bbu))
   \<and> bbuParams.Policy64 (snd (toPolicy_via marshal (toParams bbu)))
       = BBUResponse.Policy (bbuResponse_via marshal bbu)
   \<and> snd (toSignature_via marshal (snd (toPolicy_via marshal (toParams bbu))))
       = snd (toPolicy_via marshal (toParams bbu))
   \<and> BBUResponse.Signature (bbuResponse_via marshal bbu)
       = hmacToHex
           (hmacSHA256
             (hmacSHA256
               (hmacSHA256
                 (shmacSHA256 (''AWS4'' @ S3Config.SecretKey (BBU.config bbu)) (BBU.dateString bbu))
                 (S3Config.Region (BBU.config bbu)))
               ''s3'')
             ''aws4_request'')
           (BBUResponse.Policy (bbuResponse_via marshal bbu))"
  by (simp add: bbuResponse_via_Policy bbuResponse_via_Signature toSignature_after_toPolicy
      toParams_fields toPolicy_via_cached hmacToHex_SignHex Sum_hmacSHA256 Sum_shmacSHA256
      DeriveSigningKey_def)

section \<open>Default conditions and lookup\<close>

text \<open>
  C7. For every configuration, instant and expiry, \<open>NewBBU\<close> returns a session, stores it
  in the client, and the session's conditions are exactly four single-key maps in this order:
  the bucket name, the credential string \<open>accessKey/dateCompact/region/s3/aws4_request\<close>,
  the algorithm constant \<open>AWS4-HMAC-SHA256\<close> and the ISO date string.
\<close>

theorem NewBBU_default_conditions:
  "\<exists>bbu fs4'.
     NewBBU \<lparr>FS4.config = Some cfg, BBU = old\<rparr> now mins = Inr (bbu, fs4')
     \<and> FS4.BBU fs4' = Some bbu
     \<and> BBU.Conditions bbu =
         [[(''bucket'', S3Config.Bucket cfg)],
          [(''x-amz-credential'',
            S3Config.AccessKey cfg @ ''/'' @ dateString now @ ''/'' @ S3Config.Region cfg
              @ ''/s3/aws4_request'')],
          [(''x-amz-algorithm'', ''AWS4-HMAC-SHA256'')],
          [(''x-amz-date'', dateStringISO (dateString now))]]"
  by (simp add: NewBBU_def Let_def setDefaultConditions_def credential_def Bucket_s_def
      XAMZCredential_def XAMZAlgorithm_def XAMZDate_def AWS4HmacSha256_def CredentialScope_def)

lemma conditionForKey_loop_first:
  "conditionForKey_loop cs key =
     (case List.map_filter (\<lambda>m. map_of m key) cs of [] \<Rightarrow> [] | v # _ \<Rightarrow> v)"
  by (induction cs) (auto simp: List.map_filter_simps split: option.splits)

lemma conditionForKey_loop_absent:
  "\<forall>m\<in>set cs. map_of m key = None \<Longrightarrow> conditionForKey_loop cs key = []"
  by (induction cs) auto

lemma conditionForKey_loop_skip:
  "\<forall>m\<in>set pre. map_of m key = None \<Longrightarrow>
   conditionForKey_loop (pre @ cs) key = conditionForKey_loop cs key"
  by (induction pre) auto

text \<open>
  C8. \<open>conditionForKey\<close> returns the value of the first condition, in insertion order,
  that has the key: it is the head of the list of all values stored under the key, and the
  empty string when that list is empty. When no condition has the key, the result is the empty
  string; when the key is added twice, the first value is returned. The \<open>RedirectURI\<close> and
  \<open>Key\<close> fields of the response of \<open>FormFields\<close> are empty strings when the conditions
  \<open>success_action_redirect\<close> and \<open>key\<close> are absent.
\<close>

theorem conditionForKey_first_match:
  "conditionForKey bbu key =
     (case List.map_filter (\<lambda>m. map_of m key) (BBU.Conditions bbu) of [] \<Rightarrow> [] | v # _ \<Rightarrow> v)
   \<and> ((\<forall>m\<in>set (BBU.Conditions bbu). map_of m key = None) \<longrightarrow> conditionForKey bbu key = [])
   \<and> ((\<forall>m\<in>set (BBU.Conditions bbu). map_of m key = None) \<longrightarrow>
        conditionForKey (AddCondition (AddCondition bbu key v1) key v2) key = v1)
   \<and> ((\<forall>m\<in>set (BBU.Conditions bbu). map_of m SuccessActionRedirect = None) \<longrightarrow>
        BBUResponse.RedirectURI (bbuResponse_via json_Marshal bbu) = [])
   \<and> ((\<forall>m\<in>set (BBU.Conditions bbu). map_of m Key_s = None) \<longrightarrow>
        BBUResponse.Key (bbuResponse_via json_Marshal bbu) = [])"
proof -
  have first: "conditionForKey bbu key =
     (case List.map_filter (\<lambda>m. map_of m key) (BBU.Conditions bbu) of [] \<Rightarrow> [] | v # _ \<Rightarrow> v)"
    by (simp add: conditionForKey_def conditionForKey_loop_first)
  have absent: "conditionForKey bbu k = []"
    if "\<forall>m\<in>set (BBU.Conditions bbu). map_of m k = None" for k
    using that by (simp add: conditionForKey_def conditionForKey_loop_absent)
  have twice: "conditionForKey (AddCondition (AddCondition bbu key v1) key v2) key = v1"
    if "\<forall>m\<in>set (BBU.Conditions bbu). map_of m key = None"
    using that by (simp add: conditionForKey_def AddCondition_def conditionForKey_loop_skip)
  have redirect: "BBUResponse.RedirectURI (bbuResponse_via json_Marshal bbu) =
      conditionForKey bbu SuccessActionRedirect"
    by (simp add: bbuResponse_via_def Let_def split: prod.splits)
  have key: "BBUResponse.Key (bbuResponse_via json_Marshal bbu) = conditionForKey bbu Key_s"
    by (simp add: bbuResponse_via_def Let_def split: prod.splits)
  show ?thesis
    using first absent twice by (auto simp: redirect key)
qed

theorem conditionForKey_first_match_witness:
  "conditionForKey (AddCondition (AddCondition
       \<lparr>BBU.Conditions = [[(''bucket'', ''b'')], [(''acl'', ''private'')]],
        DateStringISO = ''20240305T000000Z'', Credential = ''A/20240305/r/s3/aws4_request'',
        config = \<lparr>S3Config.AccessKey = ''A'', SecretKey = ''s'', Bucket = ''b'',
                  Region = ''r'', Accelerate = False\<rparr>,
        minutesToExpiry = 0, expiration = ''2024-03-05T15:40:00.000Z'',
        dateString = ''20240305'', secretKey = [], region = []\<rparr> ''key'' ''first'') ''key'' ''second'')
       ''key'' = ''first''
   \<and> BBUResponse.Key (bbuResponse_via json_Marshal
       \<lparr>BBU.Conditions = [[(''bucket'', ''b'')], [(''acl'', ''private'')]],
        DateStringISO = ''20240305T000000Z'', Credential = ''A/20240305/r/s3/aws4_request'',
        config = \<lparr>S3Config.AccessKey = ''A'', SecretKey = ''s'', Bucket = ''b'',
                  Region = ''r'', Accelerate = False\<rparr>,
        minutesToExpiry = 0, expiration = ''2024-03-05T15:40:00.000Z'',
        dateString = ''20240305'', secretKey = [], region = []\<rparr>) = []"
  using conditionForKey_first_match
    [of "\<lparr>BBU.Conditions = [[(''bucket'', ''b'')], [(''acl'', ''private'')]],
        DateStringISO = ''20240305T000000Z'', Credential = ''A/20240305/r/s3/aws4_request'',
        config = \<lparr>S3Config.AccessKey = ''A'', SecretKey = ''s'', Bucket = ''b'',
                  Region = ''r'', Accelerate = False\<rparr>,
        minutesToExpiry = 0, expiration = ''2024-03-05T15:40:00.000Z'',
        dateString = ''20240305'', secretKey = [], region = []\<rparr>" "''key''" "''first''" "''second''"]
  by (simp add: Key_s_def)

section \<open>Base64 and the JSON text of the policy\<close>



lemma byte_char_of: "n < 256 \<Longrightarrow> byte (char_of n) = n"
  by (simp add: byte_def)












lemma render_object: "render (JObject (map (\<lambda>kv. (fst kv, JString (snd kv))) m')) =
    ''{'' @ strings_Join (map (\<lambda>kv. json_string (fst kv) @ '':'' @ json_string (snd kv)) m') '',''
      @ ''}''"
  by (simp add: comp_def)









section \<open>Encoding failures\<close>



lemma json_Marshal_BBUResponse:
  "json_Marshal (BBUResponse_val r) =
     Inr (render (JObject
       [(''url'', JString (BBUResponse.URL r)),
        (''success_action_redirect'', JString (BBUResponse.RedirectURI r)),
        (''x_amz_algorithm'', JString (BBUResponse.Algorithm r)),
        (''x_amz_credential'', JString (BBUResponse.Credential r)),
        (''aws_access_key_id'', JString (BBUResponse.AccessKey r)),
        (''signature'', JString (BBUResponse.Signature r)),
        (''policy'', JString (BBUResponse.Policy r)),
        (''x_amz_date'', JString (BBUResponse.Date r)),
        (''key'', JString (BBUResponse.Key r))]))"
  by (simp add: BBUResponse_val_def member_def)

lemma bbuResponse_via_fields:
  "BBUResponse.URL (bbuResponse_via marshal bbu) = bucketURL bbu"
  "BBUResponse.RedirectURI (bbuResponse_via marshal bbu) = conditionForKey bbu SuccessActionRedirect"
  "BBUResponse.Algorithm (bbuResponse_via marshal bbu) = AWS4HmacSha256"
  "BBUResponse.Credential (bbuResponse_via marshal bbu) =
     credential (BBU.config bbu) (BBU.dateString bbu)"
  "BBUResponse.AccessKey (bbuResponse_via marshal bbu) = S3Config.AccessKey (BBU.config bbu)"
  "BBUResponse.Date (bbuResponse_via marshal bbu) = BBU.DateStringISO bbu"
  "BBUResponse.Key (bbuResponse_via marshal bbu) = conditionForKey bbu Key_s"
  by (simp_all add: bbuResponse_via_def Let_def case_prod_beta)

lemma bbuResponse_Policy:
  "BBUResponse.Policy (bbuResponse_via json_Marshal bbu) = Policy bbu"
  by (simp add: bbuResponse_via_Policy Policy_def toPolicy_def)




section \<open>The response of \<open>FormFields\<close>\<close>

text \<open>
  C10. \<open>FormFields\<close> never returns an error: for every session the result is the JSON
  text of the flat object with the nine string members of \<open>BBUResponse\<close>, in the order of
  the struct's fields.
\<close>

theorem FormFields_never_fails:
  "FormFields bbu =
     Inr (render (JObject
       [(''url'', JString (bucketURL bbu)),
        (''success_action_redirect'', JString (conditionForKey bbu SuccessActionRedirect)),
        (''x_amz_algorithm'', JString AWS4HmacSha256),
        (''x_amz_credential'', JString (credential (BBU.config bbu) (BBU.dateString bbu))),
        (''aws_access_key_id'', JString (S3Config.AccessKey (BBU.config bbu))),
        (''signature'', JString (Signature bbu)),
        (''policy'', JString (Policy bbu)),
        (''x_amz_date'', JString (BBU.DateStringISO bbu)),
        (''key'', JString (conditionForKey bbu Key_s))]))
   \<and> (\<exists>out. FormFields bbu = Inr out)
   \<and> (\<forall>e. FormFields bbu \<noteq> Inl e)"
  by (simp add: FormFields_def FormFields_via_def json_Marshal_BBUResponse
      bbuResponse_via_fields bbuResponse_Signature bbuResponse_Policy)

lemma bbuResponse_via_cong:
  assumes "BBU.Conditions a = BBU.Conditions b" "BBU.config a = BBU.config b"
    "BBU.dateString a = BBU.dateString b" "BBU.DateStringISO a = BBU.DateStringISO b"
    "BBU.expiration a = BBU.expiration b"
  shows "bbuResponse_via marshal a = bbuResponse_via marshal b"
  using assms
  by (simp add: bbuResponse_via_def toParams_def conditionForKey_def bucketURL_def)

text \<open>
  C9. The output of \<open>FormFields\<close> is determined by the configuration, the date strings
  captured at creation, the expiration and the condition sequence: two sessions that agree on
  these return the same JSON bytes, the same policy and the same signature.
\<close>

theorem FormFields_deterministic:
  assumes "BBU.Conditions a = BBU.Conditions b" "BBU.config a = BBU.config b"
    "BBU.dateString a = BBU.dateString b" "BBU.DateStringISO a = BBU.DateStringISO b"
    "BBU.expiration a = BBU.expiration b"
  shows "FormFields a = FormFields b \<and> Policy a = Policy b \<and> Signature a = Signature b"
  using assms bbuResponse_via_cong [OF assms, of json_Marshal]
  by (simp add: FormFields_def FormFields_via_def Policy_def Signature_def toParams_def)

theorem FormFields_deterministic_witness:
  "FormFields
     \<lparr>BBU.Conditions = [[(''bucket'', ''b'')]], DateStringISO = ''20240305T000000Z'',
      Credential = ''A/20240305/r/s3/aws4_request'',
      config = \<lparr>S3Config.AccessKey = ''A'', SecretKey = ''s'', Bucket = ''b'', Region = ''r'',
                Accelerate = False\<rparr>,
      minutesToExpiry = 0, expiration = ''2024-03-05T15:40:00.000Z'', dateString = ''20240305'',
      secretKey = [], region = []\<rparr>
   = FormFields
     \<lparr>BBU.Conditions = [[(''bucket'', ''b'')]], DateStringISO = ''20240305T000000Z'',
      Credential = ''other'',
      config = \<lparr>S3Config.AccessKey = ''A'', SecretKey = ''s'', Bucket = ''b'', Region = ''r'',
                Accelerate = False\<rparr>,
      minutesToExpiry = 10, expiration = ''2024-03-05T15:40:00.000Z'', dateString = ''20240305'',
      secretKey = ''x'', region = ''y''\<rparr>"
  using FormFields_deterministic
    [of "\<lparr>BBU.Conditions = [[(''bucket'', ''b'')]], DateStringISO = ''20240305T000000Z'',
      Credential = ''A/20240305/r/s3/aws4_request'',
      config = \<lparr>S3Config.AccessKey = ''A'', SecretKey = ''s'', Bucket = ''b'', Region = ''r'',
                Accelerate = False\<rparr>,
      minutesToExpiry = 0, expiration = ''2024-03-05T15:40:00.000Z'', dateString = ''20240305'',
      secretKey = [], region = []\<rparr>"
     "\<lparr>BBU.Conditions = [[(''bucket'', ''b'')]], DateStringISO = ''20240305T000000Z'',
      Credential = ''other'',
      config = \<lparr>S3Config.AccessKey = ''A'', SecretKey = ''s'', Bucket = ''b'', Region = ''r'',
                Accelerate = False\<rparr>,
      minutesToExpiry = 10, expiration = ''2024-03-05T15:40:00.000Z'', dateString = ''20240305'',
      secretKey = ''x'', region = ''y''\<rparr>"]
  by simp

section \<open>Dates\<close>

lemma digits_no_minus: "CHR ''-'' \<notin> set (digits n)"
proof (induction n rule: digits.induct)
  case (1 n)
  have d: "char_of (48 + k) \<noteq> CHR ''-''" if "k < 10" for k :: nat
    using that by (auto simp: char_of_eq_iff take_bit_eq_mod)
  show ?case
  proof (cases "n < 10")
    case True
    then show ?thesis
      using d [of n] by (simp add: digits.simps [of n])
  next
    case False
    then show ?thesis
      using 1 d [of "n mod 10"] by (simp add: digits.simps [of n])
  qed
qed

lemma strings_Replace_filter: "strings_Replace s c [] = filter (\<lambda>x. x \<noteq> c) s"
  by (induction s) auto

lemma Replace_appendInt: "strings_Replace (appendInt x w) CHR ''-'' [] = pad w x"
proof -
  have "filter (\<lambda>c. c \<noteq> CHR ''-'') (digits n) = digits n" for n
    using digits_no_minus [of n] by (intro filter_True) auto
  then show ?thesis
    by (simp add: strings_Replace_filter appendInt_def pad_def Let_def)
qed

lemma strings_Replace_append:
  "strings_Replace (s @ t) c new = strings_Replace s c new @ strings_Replace t c new"
  by (induction s) auto

lemma dateString_eq:
  "dateString t = (case Time_Date t of (y, m, d) \<Rightarrow> pad 4 y @ pad 2 m @ pad 2 d)"
  by (simp add: dateString_def Format_date_def strings_Replace_append Replace_appendInt
      split: prod.splits)

text \<open>
  The instant 2024-03-05T23:30:00Z in a location one hour east of UTC: \<open>dateString\<close>
  gives the local date 20240306, the UTC date is 20240305.
\<close>

theorem dateString_not_UTC:
  "dateString \<lparr>unixSec = 1709681400, nsec = 0, loc = (\<lambda>_. 3600)\<rparr> = ''20240306''
   \<and> dateString (Time_UTC \<lparr>unixSec = 1709681400, nsec = 0, loc = (\<lambda>_. 3600)\<rparr>) = ''20240305''"
  by code_simp

text \<open>
  C6. \<open>dateString\<close> is a function of the time value: year, month and day of the wall
  clock in the time's own location, zero-padded to four, two and two digits, without
  separators. It is the UTC date of the instant shifted by the offset in effect, and the UTC
  date itself when that offset is zero. \<open>dateString\<close> of 2024-03-05T14:30:00Z in UTC is
  \<open>20240305\<close>. \<open>dateStringISO\<close> appends \<open>T000000Z\<close>.
\<close>

theorem dateString_local_date:
  "dateString t = (case Time_Date t of (y, m, d) \<Rightarrow> pad 4 y @ pad 2 m @ pad 2 d)
   \<and> Time_Date t = civil_from_days ((unixSec t + loc t (unixSec t)) div 86400)
   \<and> dateString t = dateString (Time_UTC (t\<lparr>unixSec := unixSec t + loc t (unixSec t)\<rparr>))
   \<and> (loc t (unixSec t) = 0 \<longrightarrow> dateString t = dateString (Time_UTC t))
   \<and> dateString \<lparr>unixSec = 1709649000, nsec = 0, loc = (\<lambda>_. 0)\<rparr> = ''20240305''
   \<and> dateStringISO ds = ds @ ''T000000Z''
   \<and> dateStringISO ''20240305'' = ''20240305T000000Z''"
proof -
  have a: "Time_Date t = civil_from_days ((unixSec t + loc t (unixSec t)) div 86400)"
    by (simp add: Time_Date_def localSec_def zoneOffset_def)
  have b: "dateString t = dateString (Time_UTC (t\<lparr>unixSec := unixSec t + loc t (unixSec t)\<rparr>))"
    by (simp add: dateString_def Format_date_def Time_Date_def localSec_def zoneOffset_def
        Time_UTC_def)
  have c: "dateString t = dateString (Time_UTC t)" if "loc t (unixSec t) = 0"
    using that
    by (simp add: dateString_def Format_date_def Time_Date_def localSec_def zoneOffset_def
        Time_UTC_def)
  have d: "dateString \<lparr>unixSec = 1709649000, nsec = 0, loc = (\<lambda>_. 0)\<rparr> = ''20240305''"
    by code_simp
  show ?thesis
    using a b c d by (simp add: dateString_eq dateStringISO_def)
qed

theorem dateString_local_date_witness:
  "dateString \<lparr>unixSec = 1709681400, nsec = 0, loc = (\<lambda>s. if s < 1711846800 then 0 else 3600)\<rparr>
     = dateString (Time_UTC
         \<lparr>unixSec = 1709681400, nsec = 0, loc = (\<lambda>s. if s < 1711846800 then 0 else 3600)\<rparr>)"
proof -
  let ?t = "\<lparr>unixSec = 1709681400, nsec = 0, loc = (\<lambda>s. if s < 1711846800 then 0 else (3600::int))\<rparr>"
  have "loc ?t (unixSec ?t) = 0"
    by simp
  with dateString_local_date [of ?t] show ?thesis
    by blast
qed

section \<open>Expiration\<close>

text \<open>
  C4. At the instant 2024-03-05T14:30:00Z in the location UTC and with 10 minutes to expiry,
  \<open>expirationDate\<close> returns \<open>2024-03-05T14:40:00Z.000Z\<close>: RFC 3339 writes a zero offset
  as \<open>Z\<close>, there is no \<open>+\<close> to split at, and \<open>.000Z\<close> is appended after the \<open>Z\<close>.
  The result is not \<open>2024-03-05T14:40:00.000Z\<close>. At the same instant in a location five hours
  west of UTC the offset \<open>-05:00\<close> stays in the result; in a location one hour east the
  offset \<open>+01:00\<close> is cut off and the result has the documented form, with the local wall
  clock.
\<close>

theorem expirationDate_UTC_example:
  "expirationDate \<lparr>unixSec = 1709649000, nsec = 0, loc = (\<lambda>_. 0)\<rparr> 10
     = ''2024-03-05T14:40:00Z.000Z''
   \<and> expirationDate \<lparr>unixSec = 1709649000, nsec = 0, loc = (\<lambda>_. 0)\<rparr> 10
     \<noteq> ''2024-03-05T14:40:00.000Z''
   \<and> expirationDate \<lparr>unixSec = 1709649000, nsec = 0, loc = (\<lambda>_. - 18000)\<rparr> 10
     = ''2024-03-05T09:40:00-05:00.000Z''
   \<and> expirationDate \<lparr>unixSec = 1709649000, nsec = 0, loc = (\<lambda>_. 3600)\<rparr> 10
     = ''2024-03-05T15:40:00.000Z''"
  by code_simp

end
